theory Spec2Isabelle
  imports Complex_Main
begin

section \<open>Agent Council frontend: the session controller of static/app.js\<close>

text \<open>
  The development embeds the session controller of \<^verbatim>\<open>static/app.js\<close>: the global
  \<^verbatim>\<open>state\<close> object, the page elements the controller writes, and the functions
  \<^verbatim>\<open>selectCouncil\<close>, \<^verbatim>\<open>sendTask\<close>, \<^verbatim>\<open>handleEvent\<close>, \<^verbatim>\<open>colorIndex\<close>,
  \<^verbatim>\<open>addAgentCard\<close>, \<^verbatim>\<open>recordScore\<close>, \<^verbatim>\<open>getRubric\<close>, \<^verbatim>\<open>renderScoreboard\<close>,
  \<^verbatim>\<open>clearChat\<close>, \<^verbatim>\<open>startTimer\<close> and \<^verbatim>\<open>stopTimer\<close>.

  Modelling conventions.
  \<^item> A JavaScript string is the list of its UTF-16 code units, so \<open>length\<close> is the
    \<^verbatim>\<open>.length\<close> of the source.
  \<^item> Lengths and counters are natural numbers. The numbers of the scoring and of the
    scoreboard are IEEE 754 doubles: rationals, with every arithmetic operation of the
    source rounded to the nearest double by \<open>double\<close>.
  \<^item> An object used as a dictionary (\<^verbatim>\<open>state.councils\<close>, \<^verbatim>\<open>state.agentColors\<close>,
    \<^verbatim>\<open>state.scores\<close>) is modelled by its own properties: a map, or an association list
    in insertion order. What the engine adds is written out where the source depends on
    it: \<^verbatim>\<open>selectCouncil\<close> and \<^verbatim>\<open>colorIndex\<close> read \<^verbatim>\<open>state.councils[key]\<close> and
    \<^verbatim>\<open>state.agentColors[role]\<close> through the prototype chain (\<open>councilLookup\<close>,
    \<open>colorLookup\<close>), and \<^verbatim>\<open>renderScoreboard\<close> enumerates \<^verbatim>\<open>state.scores\<close> in the
    order of \<^verbatim>\<open>Object.keys\<close> (\<open>objectEntries\<close>).
  \<^item> A page element is modelled by the data its markup is generated from, not by the
    HTML text.
  \<^item> Configuration loading, the reconnection of the socket, the health and HUD polling
    and the text of the session timer (which the interval callback alone writes) play no
    part in the properties below and are not modelled.
\<close>

subsection \<open>Strings\<close>

type_synonym jsstring = "nat list"

definition str :: "string \<Rightarrow> jsstring" where
  "str s = map of_char s"

text \<open>
  The code units matched by \<^verbatim>\<open>\s\<close> and removed by \<^verbatim>\<open>String.prototype.trim\<close>:
  the WhiteSpace and LineTerminator productions of ECMAScript.
\<close>

definition isWhiteSpace :: "nat \<Rightarrow> bool" where
  "isWhiteSpace c =
     (c = 9 \<or> c = 10 \<or> c = 11 \<or> c = 12 \<or> c = 13 \<or> c = 32 \<or> c = 160 \<or> c = 5760
      \<or> (8192 \<le> c \<and> c \<le> 8202) \<or> c = 8232 \<or> c = 8233 \<or> c = 8239 \<or> c = 8287
      \<or> c = 12288 \<or> c = 65279)"

definition trim :: "jsstring \<Rightarrow> jsstring" where
  "trim s = rev (dropWhile isWhiteSpace (rev (dropWhile isWhiteSpace s)))"

text \<open>
  \<^verbatim>\<open>content.split(/\s+/)\<close>: the pieces between the maximal runs of white space. A run at
  the start or at the end of the text leaves an empty piece there, and the empty text
  gives the single piece \<^verbatim>\<open>""\<close>. The first argument is the piece being read, reversed.
\<close>

function splitWs :: "jsstring \<Rightarrow> jsstring \<Rightarrow> jsstring list" where
  "splitWs piece [] = [rev piece]"
| "splitWs piece (c # cs) =
     (if isWhiteSpace c then rev piece # splitWs [] (dropWhile isWhiteSpace cs)
      else splitWs (c # piece) cs)"
  by pat_completeness auto
termination
  by (relation "measure (\<lambda>(piece, s). length s)")
     (auto simp: less_Suc_eq_le length_dropWhile_le)

subsection \<open>Double precision\<close>

text \<open>
  IEEE 754 double precision. A finite double is a rational \<open>m * 2 ^ e\<close> with an integer
  \<open>m\<close> of at most 53 bits; \<open>double x\<close> is the double nearest to \<open>x\<close>, the one with the
  even significand when two are equally near. \<open>halve\<close> and \<open>dbl\<close> scale a positive number
  into the interval from \<open>2 ^ 52\<close> to \<open>2 ^ 53\<close>, where the doubles are the integers, and
  return the scale with it. The exponent is not bounded: overflow, subnormal numbers
  and NaN do not occur at the magnitudes of a scoreboard and are not modelled.
\<close>

function halve :: "rat \<Rightarrow> rat \<Rightarrow> rat \<times> rat" where
  "halve y s = (if 2 ^ 53 \<le> y then halve (y / 2) (s * 2) else (y, s))"
  by pat_completeness auto
termination
proof (relation "measure (\<lambda>(y, s). nat \<lfloor>y\<rfloor>)")
  show "wf (measure (\<lambda>(y, s). nat \<lfloor>y\<rfloor>))" by simp
next
  fix y s :: rat
  assume h: "2 ^ 53 \<le> y"
  then have "y / 2 \<le> y - 1" by simp
  then have "\<lfloor>y / 2\<rfloor> \<le> \<lfloor>y - 1\<rfloor>" by (rule floor_mono)
  moreover have "1 \<le> \<lfloor>y\<rfloor>" using h by (simp add: le_floor_iff)
  ultimately show "((y / 2, s * 2), (y, s)) \<in> measure (\<lambda>(y, s). nat \<lfloor>y\<rfloor>)"
    by simp
qed

function dbl :: "rat \<Rightarrow> rat \<Rightarrow> rat \<times> rat" where
  "dbl y s = (if 0 < y \<and> y < 2 ^ 52 then dbl (2 * y) (s / 2) else (y, s))"
  by pat_completeness auto
termination
proof (relation "measure (\<lambda>(y, s). nat \<lfloor>2 ^ 52 / y\<rfloor>)")
  show "wf (measure (\<lambda>(y, s). nat \<lfloor>2 ^ 52 / y\<rfloor>))" by simp
next
  fix y s :: rat
  assume h: "0 < y \<and> y < 2 ^ 52"
  define z where "z = 2 ^ 52 / y"
  have "1 < z" using h by (simp add: z_def)
  then have n1: "1 \<le> \<lfloor>z\<rfloor>" by (simp add: le_floor_iff)
  have "z < of_int \<lfloor>z\<rfloor> + 1" by linarith
  then have "z / 2 < of_int \<lfloor>z\<rfloor>" using n1 by linarith
  then have "\<lfloor>z / 2\<rfloor> < \<lfloor>z\<rfloor>" by (simp add: floor_less_iff)
  moreover have "2 ^ 52 / (2 * y) = z / 2" by (simp add: z_def)
  ultimately show "((2 * y, s / 2), (y, s)) \<in> measure (\<lambda>(y, s). nat \<lfloor>2 ^ 52 / y\<rfloor>)"
    using n1 by (simp add: z_def)
qed

declare halve.simps [simp del] dbl.simps [simp del]

text \<open>The nearest integer, the even one at a tie.\<close>

definition roundEven :: "rat \<Rightarrow> int" where
  "roundEven y =
     (let f = \<lfloor>y\<rfloor>; d = y - of_int f
      in if d < 1 / 2 then f else if 1 / 2 < d then f + 1 else if even f then f else f + 1)"

definition roundPos :: "rat \<Rightarrow> rat" where
  "roundPos x = (let (y, s) = halve x 1; (m, t) = dbl y s in of_int (roundEven m) * t)"

definition double :: "rat \<Rightarrow> rat" where
  "double x = (if x = 0 then 0 else if 0 < x then roundPos x else - roundPos (- x))"

subsection \<open>The scoring heuristic of recordScore\<close>

text \<open>
  The score record \<^verbatim>\<open>{ acc, comp, conc, tone }\<close>. The field \<^verbatim>\<open>comp\<close> is written
  \<open>comp'\<close>, since \<open>comp\<close> is function composition in HOL.
\<close>

record score =
  acc :: rat
  comp' :: rat
  conc :: rat
  tone :: rat

text \<open>
  The record that \<^verbatim>\<open>recordScore\<close> builds from the text, before it is stored. The
  remainders are exact; the division and the addition are rounded; the literal
  \<^verbatim>\<open>9.8\<close> is the double nearest to it.
\<close>

definition scoreOf :: "jsstring \<Rightarrow> score" where
  "scoreOf content =
     (let words = length (splitWs [] content);
          chars = length content
      in \<lparr> acc = min (double (98 / 10)) (double (65 / 10 + double (of_nat (chars mod 30) / 10))),
           comp' = min (double (98 / 10)) (double (6 + double (of_nat (words mod 40) / 14))),
           conc = min (double (98 / 10)) (double (55 / 10 + double (of_nat (chars mod 20) / 8))),
           tone = min (double (98 / 10)) (double (65 / 10 + double (of_nat (words mod 20) / 10))) \<rparr>)"

subsection \<open>The state object and the page\<close>

datatype readyState = CONNECTING | OPEN | CLOSING | CLOSED

text \<open>The outbound message \<^verbatim>\<open>{ type: 'task', council, task }\<close>.\<close>

record task_message =
  council :: jsstring
  task :: jsstring

text \<open>
  The WebSocket object: its \<^verbatim>\<open>readyState\<close> and, as the record of the effect of
  \<^verbatim>\<open>send\<close>, the messages handed to it so far.
\<close>

record websocket =
  readyState :: readyState
  sent :: "task_message list"

text \<open>One entry of \<^verbatim>\<open>cfg.councils\<close>; each field may be missing.\<close>

record council_cfg =
  name :: "jsstring option"
  strategy :: "jsstring option"
  agents :: "jsstring list option"

text \<open>
  The global \<^verbatim>\<open>state\<close> object, field by field. \<open>agentColors\<close> holds the own
  properties of \<^verbatim>\<open>state.agentColors\<close>, and \<open>scores\<close> those of \<^verbatim>\<open>state.scores\<close> in the
  order in which they were first assigned.
\<close>

record state =
  ws :: "websocket option"
  councils :: "jsstring \<rightharpoonup> council_cfg"
  selectedCouncil :: jsstring
  isRunning :: bool
  agentColors :: "jsstring \<rightharpoonup> nat"
  nextColorIndex :: nat
  sessionStart :: "nat option"
  timerInterval :: "nat option"
  scores :: "(jsstring \<times> score) list"

text \<open>
  The value of \<^verbatim>\<open>state.agentColors[role]\<close>: a palette index stored by the controller,
  or the member of \<^verbatim>\<open>Object.prototype\<close> of that name (a function or an object, never a
  number).
\<close>

datatype colour = Index nat | Inherited jsstring

text \<open>
  The children appended to \<^verbatim>\<open>#chat-messages\<close>. The last field of an agent card is
  the value \<^verbatim>\<open>idx\<close> from which its class name \<^verbatim>\<open>agent-color-idx\<close> is built.
\<close>

datatype node =
    UserMessage jsstring
  | RoundSeparator "nat option" "nat option"
  | StatusMessage jsstring
  | ErrorMessage jsstring
  | AgentCard jsstring "jsstring option" jsstring bool colour

text \<open>
  A row of the scoreboard: \<^verbatim>\<open>{ role, overall, acc, comp, conc, tone }\<close>.
\<close>

record row = score +
  role :: jsstring
  overall :: rat

text \<open>
  The rubric \<^verbatim>\<open>{ a, c, k, t }\<close> returned by \<^verbatim>\<open>getRubric\<close>; the fields are written
  \<open>wa\<close>, \<open>wc\<close>, \<open>wk\<close>, \<open>wt\<close>.
\<close>

record rubric =
  wa :: rat
  wc :: rat
  wk :: rat
  wt :: rat

text \<open>
  The application: \<^verbatim>\<open>state\<close> extended by the page elements and browser facilities the
  controller reads and writes.
  \<^item> \<open>chat_messages\<close>: the nodes appended to \<^verbatim>\<open>#chat-messages\<close>, oldest first;
  \<^item> \<open>welcome_el\<close>: whether \<^verbatim>\<open>#welcome\<close> exists and, if so, whether it is displayed;
  \<^item> \<open>input_value\<close>, \<open>input_disabled\<close>, \<open>send_disabled\<close>: \<^verbatim>\<open>#chat-input\<close> and \<^verbatim>\<open>#send-btn\<close>;
  \<^item> \<open>rubric_a\<close> .. \<open>rubric_t\<close>: \<^verbatim>\<open>Number(value)\<close> of the four sliders, \<open>None\<close> for NaN;
  \<^item> \<open>score_list\<close>: the rows of \<^verbatim>\<open>#score-list\<close>, \<open>None\<close> for the empty-state text;
  \<^item> \<open>council_name\<close>, \<open>council_info\<close>, \<open>pill_strategy\<close>, \<open>council_btns\<close>: the top bar,
    the strategy pill (if present) and the sidebar buttons with their active flag;
  \<^item> \<open>cleared\<close>: the handles passed to \<^verbatim>\<open>clearInterval\<close> so far;
  \<^item> \<open>nextTimerId\<close>: the number of handles \<^verbatim>\<open>setInterval\<close> has issued; handles are
    positive, as in every browser.
  The elements are taken to exist where the source uses them unguarded. The timestamp
  and the placeholder statistics on an agent card are cosmetic and left out.
\<close>

record app = state +
  chat_messages :: "node list"
  welcome_el :: "bool option"
  input_value :: jsstring
  input_disabled :: bool
  send_disabled :: bool
  rubric_a :: "rat option"
  rubric_c :: "rat option"
  rubric_k :: "rat option"
  rubric_t :: "rat option"
  score_list :: "row list option"
  council_name :: jsstring
  council_info :: "(jsstring \<times> nat) option"
  pill_strategy :: "jsstring option"
  council_btns :: "(jsstring \<times> bool) list"
  cleared :: "nat list"
  nextTimerId :: nat

text \<open>
  Inbound events after \<^verbatim>\<open>JSON.parse\<close>, one constructor for each \<^verbatim>\<open>type\<close> tag that
  \<^verbatim>\<open>handleEvent\<close> tests, with the fields it reads (\<open>None\<close> for a field that is
  missing or null), and \<open>Unhandled\<close> for every other parsed value, on which no branch
  of \<^verbatim>\<open>handleEvent\<close> acts. The fields are those of a well-formed event of the
  protocol: the agent and the texts are strings, the round numbers are numbers.
\<close>

datatype event =
    Status "jsstring option"
  | RoundStart "nat option" "nat option"
  | AgentDone jsstring "jsstring option" "jsstring option"
  | ModeratorDone "jsstring option" "jsstring option"
  | ErrorEv "jsstring option"
  | CouncilDone
  | Unhandled

datatype error = SyntaxError | TypeError

subsection \<open>Truthiness\<close>

text \<open>\<^verbatim>\<open>s || d\<close> for an optional string: the empty string and a missing value are falsy.\<close>

definition strOr :: "jsstring option \<Rightarrow> jsstring \<Rightarrow> jsstring" where
  "strOr s d = (case s of None \<Rightarrow> d | Some v \<Rightarrow> if v = [] then d else v)"

text \<open>\<^verbatim>\<open>x || d\<close> for a number: zero and NaN are falsy.\<close>

definition numOr :: "rat option \<Rightarrow> rat \<Rightarrow> rat" where
  "numOr x d = (case x of None \<Rightarrow> d | Some v \<Rightarrow> if v = 0 then d else v)"

text \<open>Truthiness of an optional natural number: missing and zero are falsy.\<close>

definition truthy :: "nat option \<Rightarrow> bool" where
  "truthy x = (case x of None \<Rightarrow> False | Some v \<Rightarrow> v \<noteq> 0)"

subsection \<open>Messages\<close>

definition appendMessage :: "node \<Rightarrow> app \<Rightarrow> app" where
  "appendMessage n a = a\<lparr>chat_messages := chat_messages a @ [n]\<rparr>"

definition addUserMessage :: "jsstring \<Rightarrow> app \<Rightarrow> app" where
  "addUserMessage text = appendMessage (UserMessage text)"

definition addRoundSeparator :: "nat option \<Rightarrow> nat option \<Rightarrow> app \<Rightarrow> app" where
  "addRoundSeparator rnd tot =
     appendMessage (RoundSeparator rnd (if truthy tot then tot else None))"

text \<open>
  \<^verbatim>\<open>addStatus\<close> calls \<^verbatim>\<open>text.indexOf\<close> before it appends anything, so a missing text
  raises a TypeError and leaves the page as it was.
\<close>

definition addStatus :: "jsstring option \<Rightarrow> app \<Rightarrow> error + app" where
  "addStatus text a =
     (case text of None \<Rightarrow> Inl TypeError
      | Some t \<Rightarrow> Inr (appendMessage (StatusMessage t) a))"

definition addError :: "jsstring \<Rightarrow> app \<Rightarrow> app" where
  "addError text = appendMessage (ErrorMessage text)"

subsection \<open>Inherited properties\<close>

text \<open>
  The property names of \<^verbatim>\<open>Object.prototype\<close>, which every object literal \<^verbatim>\<open>{}\<close>
  inherits: the members of the standard and of its annex for web browsers. Each of
  them is a function, except \<^verbatim>\<open>__proto__\<close>, which reads as \<^verbatim>\<open>Object.prototype\<close> itself;
  all are truthy.
\<close>

definition objectPrototype :: "jsstring list" where
  "objectPrototype =
     map str [''constructor'', ''hasOwnProperty'', ''isPrototypeOf'', ''propertyIsEnumerable'',
       ''toLocaleString'', ''toString'', ''valueOf'', ''__proto__'', ''__defineGetter__'',
       ''__defineSetter__'', ''__lookupGetter__'', ''__lookupSetter__'']"

subsection \<open>Council selection\<close>

text \<open>
  \<^verbatim>\<open>state.councils[key]\<close>: the own entry if there is one, else the inherited member,
  else \<^verbatim>\<open>undefined\<close>. Of an inherited member \<^verbatim>\<open>selectCouncil\<close> reads the three
  properties of a council: \<^verbatim>\<open>name\<close> is the name of the function (\<^verbatim>\<open>Object\<close> for
  \<^verbatim>\<open>constructor\<close>, and missing on \<^verbatim>\<open>Object.prototype\<close> itself), \<^verbatim>\<open>strategy\<close> and
  \<^verbatim>\<open>agents\<close> are missing.
\<close>

definition councilLookup :: "(jsstring \<rightharpoonup> council_cfg) \<Rightarrow> jsstring \<Rightarrow> council_cfg option" where
  "councilLookup m key =
     (case m key of Some cfg \<Rightarrow> Some cfg
      | None \<Rightarrow>
          if key \<in> set objectPrototype
          then Some \<lparr> name = (if key = str ''constructor'' then Some (str ''Object'')
                               else if key = str ''__proto__'' then None else Some key),
                        strategy = None, agents = None \<rparr>
          else None)"

definition selectCouncil :: "jsstring \<Rightarrow> app \<Rightarrow> app" where
  "selectCouncil key a =
     (let a1 = a\<lparr>selectedCouncil := key\<rparr>
      in case councilLookup (councils a1) key of
           None \<Rightarrow> a1
         | Some cfg \<Rightarrow>
             (let strat = strOr (strategy cfg) (str ''debate'');
                  agentCount = (case agents cfg of None \<Rightarrow> 0 | Some ags \<Rightarrow> length ags)
              in a1\<lparr>council_name := strOr (name cfg) key,
                     council_info := Some (strat, agentCount),
                     pill_strategy := map_option (\<lambda>_. strat) (pill_strategy a1),
                     council_btns := map (\<lambda>(k, _). (k, k = key)) (council_btns a1)\<rparr>))"

subsection \<open>Colours and agent cards\<close>

text \<open>
  \<^verbatim>\<open>state.agentColors[role]\<close>: the own property if there is one, else the inherited
  member, else \<^verbatim>\<open>undefined\<close>; and the truthiness of the result.
\<close>

definition colorLookup :: "(jsstring \<rightharpoonup> nat) \<Rightarrow> jsstring \<Rightarrow> colour option" where
  "colorLookup m r =
     (case m r of Some i \<Rightarrow> Some (Index i)
      | None \<Rightarrow> if r \<in> set objectPrototype then Some (Inherited r) else None)"

fun truthyColour :: "colour option \<Rightarrow> bool" where
  "truthyColour None = False"
| "truthyColour (Some (Index i)) = (i \<noteq> 0)"
| "truthyColour (Some (Inherited r)) = True"

definition colorIndex :: "jsstring \<Rightarrow> app \<Rightarrow> colour \<times> app" where
  "colorIndex r a =
     (if \<not> truthyColour (colorLookup (agentColors a) r)
      then (Index (nextColorIndex a),
            a\<lparr>agentColors := (agentColors a)(r \<mapsto> nextColorIndex a),
              nextColorIndex := nextColorIndex a mod 5 + 1\<rparr>)
      else (the (colorLookup (agentColors a) r), a))"

definition addAgentCard :: "jsstring \<Rightarrow> jsstring option \<Rightarrow> jsstring \<Rightarrow> bool \<Rightarrow> app \<Rightarrow> app" where
  "addAgentCard r model content isModerator a =
     (let (idx, a1) = (if isModerator then (Index 0, a) else colorIndex r a)
      in appendMessage (AgentCard r model content isModerator idx) a1)"

subsection \<open>Scoreboard\<close>

text \<open>
  \<^verbatim>\<open>obj[key] = v\<close> on the own properties of an object, kept in the order of their
  creation: an existing property is overwritten in place, a new one is created last.
\<close>

fun setProp :: "'k \<Rightarrow> 'v \<Rightarrow> ('k \<times> 'v) list \<Rightarrow> ('k \<times> 'v) list" where
  "setProp key v [] = [(key, v)]"
| "setProp key v ((key', v') # kvs) =
     (if key' = key then (key, v) # kvs else (key', v') # setProp key v kvs)"

definition recordScore :: "jsstring \<Rightarrow> jsstring \<Rightarrow> app \<Rightarrow> app" where
  "recordScore r content a = a\<lparr>scores := setProp r (scoreOf content) (scores a)\<rparr>"

definition getRubric :: "app \<Rightarrow> rubric" where
  "getRubric a =
     \<lparr> wa = numOr (rubric_a a) 45, wc = numOr (rubric_c a) 25,
       wk = numOr (rubric_k a) 15, wt = numOr (rubric_t a) 15 \<rparr>"

text \<open>
  \<^verbatim>\<open>Object.keys(state.scores)\<close> with the value of each key. The engine lists the own
  properties whose name is an array index (the decimal numeral, without leading zero,
  of an integer below \<open>2 ^ 32 - 1\<close>) first, in ascending numeric order, and then the
  other names in the order of their creation. An assignment to the name
  \<^verbatim>\<open>__proto__\<close> replaces the prototype and creates no own property, so that name is
  never listed.
\<close>

definition isDigit :: "nat \<Rightarrow> bool" where
  "isDigit c = (48 \<le> c \<and> c \<le> 57)"

definition indexValue :: "jsstring \<Rightarrow> nat" where
  "indexValue s = foldl (\<lambda>n c. 10 * n + (c - 48)) 0 s"

definition isArrayIndex :: "jsstring \<Rightarrow> bool" where
  "isArrayIndex s =
     (s \<noteq> [] \<and> list_all isDigit s \<and> (length s = 1 \<or> hd s \<noteq> 48) \<and>
      indexValue s < 2 ^ 32 - 1)"

definition listed :: "jsstring \<Rightarrow> bool" where
  "listed k = (\<not> isArrayIndex k \<and> k \<noteq> str ''__proto__'')"

definition objectEntries :: "(jsstring \<times> 'v) list \<Rightarrow> (jsstring \<times> 'v) list" where
  "objectEntries kvs =
     sort_key (\<lambda>p. indexValue (fst p)) (filter (\<lambda>p. isArrayIndex (fst p)) kvs) @
     filter (\<lambda>p. listed (fst p)) kvs"

text \<open>
  The computation of \<^verbatim>\<open>renderScoreboard\<close> between reading the rubric and writing the
  page, every operation in double precision and in the order of the source: the total
  \<^verbatim>\<open>rubric.a + rubric.c + rubric.k + rubric.t || 1\<close>; one row per key of the score map
  with \<^verbatim>\<open>overall = (s.acc * rubric.a + s.comp * rubric.c + s.conc * rubric.k + s.tone * rubric.t) / total\<close>;
  and the sort with the comparator \<^verbatim>\<open>b.overall - a.overall\<close>, whose sign is that of
  the comparison of the two doubles. \<^verbatim>\<open>Array.prototype.sort\<close> is stable, as is the
  insertion sort \<open>sort_key\<close>.
\<close>

definition scoreboardTotal :: "rubric \<Rightarrow> rat" where
  "scoreboardTotal rb =
     numOr (Some (double (double (double (wa rb + wc rb) + wk rb) + wt rb))) 1"

definition scoreboardRow :: "rubric \<Rightarrow> jsstring \<times> score \<Rightarrow> row" where
  "scoreboardRow rb = (\<lambda>(r, s).
     \<lparr> acc = acc s, comp' = comp' s, conc = conc s, tone = tone s, role = r,
       overall =
         double (double (double (double (double (acc s * wa rb) + double (comp' s * wc rb))
                                 + double (conc s * wk rb))
                         + double (tone s * wt rb))
                 / scoreboardTotal rb) \<rparr>)"

definition scoreboardRows :: "rubric \<Rightarrow> (jsstring \<times> score) list \<Rightarrow> row list" where
  "scoreboardRows rb scs =
     sort_key (\<lambda>r. - overall r) (map (scoreboardRow rb) (objectEntries scs))"

definition renderScoreboard :: "app \<Rightarrow> app" where
  "renderScoreboard a = a\<lparr>score_list := Some (scoreboardRows (getRubric a) (scores a))\<rparr>"

subsection \<open>Timer and input state\<close>

definition updateInputState :: "app \<Rightarrow> app" where
  "updateInputState a = a\<lparr>send_disabled := isRunning a, input_disabled := isRunning a\<rparr>"

definition stopTimer :: "app \<Rightarrow> app" where
  "stopTimer a =
     (if truthy (timerInterval a)
      then a\<lparr>cleared := cleared a @ [the (timerInterval a)], timerInterval := None\<rparr>
      else a)"

text \<open>\<open>now\<close> is the value of \<^verbatim>\<open>Date.now()\<close> at the call.\<close>

definition startTimer :: "nat \<Rightarrow> app \<Rightarrow> app" where
  "startTimer now a =
     (let a1 = a\<lparr>sessionStart := Some now\<rparr>;
          a2 = (if truthy (timerInterval a1)
                then a1\<lparr>cleared := cleared a1 @ [the (timerInterval a1)]\<rparr> else a1)
      in a2\<lparr>timerInterval := Some (Suc (nextTimerId a2)),
            nextTimerId := Suc (nextTimerId a2)\<rparr>)"

subsection \<open>Task submission\<close>

definition connected :: "app \<Rightarrow> bool" where
  "connected a = (case ws a of None \<Rightarrow> False | Some sock \<Rightarrow> readyState sock = OPEN)"

definition wsSend :: "task_message \<Rightarrow> app \<Rightarrow> app" where
  "wsSend m a = a\<lparr>ws := map_option (\<lambda>sock. sock\<lparr>sent := sent sock @ [m]\<rparr>) (ws a)\<rparr>"

definition sendTask :: "nat \<Rightarrow> app \<Rightarrow> app" where
  "sendTask now a =
     (if isRunning a then a
      else let tsk = trim (input_value a)
           in if tsk = [] then a
              else if \<not> connected a then addError (str ''WebSocket not connected.'') a
              else
                (let a1 = a\<lparr>welcome_el := map_option (\<lambda>_. False) (welcome_el a)\<rparr>;
                     a2 = a1\<lparr>agentColors := Map.empty, nextColorIndex := 1, scores := []\<rparr>;
                     a3 = addUserMessage tsk a2;
                     a4 = wsSend \<lparr>council = selectedCouncil a3, task = tsk\<rparr> a3;
                     a5 = a4\<lparr>input_value := [], isRunning := True\<rparr>
                 in startTimer now (updateInputState a5)))"

subsection \<open>Event dispatch\<close>

definition placeholder :: jsstring where
  "placeholder = str ''[No response]''"

text \<open>\<^verbatim>\<open>(e.content || '').trim() || '[No response]'\<close>\<close>

definition shownContent :: "jsstring option \<Rightarrow> jsstring" where
  "shownContent content = strOr (Some (trim (strOr content []))) placeholder"

fun handleEvent :: "event \<Rightarrow> app \<Rightarrow> error + app" where
  "handleEvent (Status content) a = addStatus content a"
| "handleEvent (RoundStart rnd tot) a = Inr (addRoundSeparator rnd tot a)"
| "handleEvent (AgentDone agent content model) a =
     Inr (recordScore agent (shownContent content)
            (addAgentCard agent model (shownContent content) False a))"
| "handleEvent (ModeratorDone content model) a =
     Inr (addAgentCard (str ''Moderator'') model (shownContent content) True a)"
| "handleEvent (ErrorEv content) a =
     Inr (addError (strOr content (str ''Unknown error''))
            (stopTimer (updateInputState (a\<lparr>isRunning := False\<rparr>))))"
| "handleEvent CouncilDone a =
     addStatus (Some (str ''Session complete''))
       (renderScoreboard (stopTimer (updateInputState (a\<lparr>isRunning := False\<rparr>))))"
| "handleEvent Unhandled a = Inr a"

text \<open>
  The \<^verbatim>\<open>onmessage\<close> handler: \<^verbatim>\<open>try { handleEvent(JSON.parse(evt.data)); } catch (_) {}\<close>.
  \<open>deliver\<close> is the handler on a parsed event; \<open>onmessage\<close> takes the parser as a
  parameter, \<open>Inl SyntaxError\<close> being the exception \<^verbatim>\<open>JSON.parse\<close> throws on a payload
  that is not valid JSON.
\<close>

definition deliver :: "event \<Rightarrow> app \<Rightarrow> app" where
  "deliver e a = (case handleEvent e a of Inl _ \<Rightarrow> a | Inr a' \<Rightarrow> a')"

definition onmessage :: "(jsstring \<Rightarrow> error + event) \<Rightarrow> jsstring \<Rightarrow> app \<Rightarrow> app" where
  "onmessage parse payload a =
     (case parse payload of Inl _ \<Rightarrow> a | Inr e \<Rightarrow> deliver e a)"

subsection \<open>Clearing the session\<close>


subsection \<open>Auxiliary definitions for the properties\<close>

text \<open>
  The state of a freshly loaded page: \<^verbatim>\<open>var state = { ... }\<close> as the source
  initialises it, an empty chat with the welcome block, and the sliders at their
  default weights.
\<close>

definition initial :: app where
  "initial =
     \<lparr> ws = None, councils = Map.empty, selectedCouncil = str ''general'',
       isRunning = False, agentColors = Map.empty, nextColorIndex = 1,
       sessionStart = None, timerInterval = None, scores = [],
       chat_messages = [], welcome_el = Some True, input_value = [],
       input_disabled = False, send_disabled = False,
       rubric_a = Some 45, rubric_c = Some 25, rubric_k = Some 15, rubric_t = Some 15,
       score_list = None, council_name = [], council_info = None,
       pill_strategy = Some [], council_btns = [], cleared = [], nextTimerId = 0 \<rparr>"





text \<open>
  The page after the configuration has been loaded with one council, \<^verbatim>\<open>general\<close>,
  which is selected.
\<close>

definition loaded :: app where
  "loaded = initial
     \<lparr> councils := [str ''general'' \<mapsto>
          \<lparr> name = Some (str ''General''), strategy = Some (str ''debate''),
            agents = Some [str ''Analyst'', str ''Critic''] \<rparr>],
       council_name := str ''General'',
       council_info := Some (str ''debate'', 2),
       council_btns := [(str ''general'', True)] \<rparr>"

text \<open>The same page during a session: the connection is open and a task is running.\<close>

definition busy :: app where
  "busy = loaded
     \<lparr> ws := Some \<lparr> readyState = OPEN, sent = [] \<rparr>, isRunning := True,
       timerInterval := Some 1, nextTimerId := 1, sessionStart := Some 1000,
       input_value := str ''second task'', input_disabled := True, send_disabled := True \<rparr>"

text \<open>A content field that is missing, empty or made of white space only.\<close>

definition blank :: "jsstring option \<Rightarrow> bool" where
  "blank content = (case content of None \<Rightarrow> True | Some s \<Rightarrow> list_all isWhiteSpace s)"

text \<open>
  A parser for examples: it accepts the payload \<^verbatim>\<open>{}\<close>, an object with no
  \<^verbatim>\<open>type\<close>, and rejects everything else.
\<close>

definition demoParse :: "jsstring \<Rightarrow> error + event" where
  "demoParse payload = (if payload = str ''{}'' then Inr Unhandled else Inl SyntaxError)"

text \<open>
  The loaded page with an open connection and the task \<^verbatim>\<open>X\<close> typed into the input.
\<close>

definition ready :: app where
  "ready = loaded\<lparr> ws := Some \<lparr> readyState = OPEN, sent = [] \<rparr>, input_value := str ''X'' \<rparr>"

text \<open>
  Delivering a sequence of parsed events in order: the final application, and the trace
  of all applications passed through, the initial one first.
\<close>

definition run :: "event list \<Rightarrow> app \<Rightarrow> app" where
  "run evs a = fold deliver evs a"

fun trace :: "event list \<Rightarrow> app \<Rightarrow> app list" where
  "trace [] a = [a]"
| "trace (e # es) a = a # trace es (deliver e a)"

text \<open>The number of steps of a trace at which the running flag goes from true to false.\<close>

fun idleTransitions :: "app list \<Rightarrow> nat" where
  "idleTransitions (a # a' # tr) =
     (if isRunning a \<and> \<not> isRunning a' then 1 else 0) + idleTransitions (a' # tr)"
| "idleTransitions _ = 0"

text \<open>The two events that end a session.\<close>

fun terminal :: "event \<Rightarrow> bool" where
  "terminal (ErrorEv _) = True"
| "terminal CouncilDone = True"
| "terminal _ = False"



definition defaultRubric :: rubric where
  "defaultRubric = \<lparr> wa = 45, wc = 25, wk = 15, wt = 15 \<rparr>"






text \<open>
  Two answers, of 71 characters in 22 words and of 23 characters in one word, whose
  overall scores under the default weights are adjacent doubles.
\<close>

definition nearTieA :: jsstring where
  "nearTieA = str ''ab ab ab ab ab ab ab ab ab ab ab ab ab ab ab ab abc abc abc abc abc abc''"

definition nearTieB :: jsstring where
  "nearTieB = str ''aaaaaaaaaaaaaaaaaaaaaaa''"





section \<open>Properties\<close>

subsection \<open>Double precision\<close>

text \<open>
  Below \<open>2 ^ 53\<close> the rounding is determined by the one scale \<open>2 ^ k\<close> that brings the
  number between \<open>2 ^ 52\<close> and \<open>2 ^ 53\<close>: a number is rounded by rounding its multiple
  to an integer. From this, rounding is monotone.
\<close>

lemma floor_rat_numeral: "\<lfloor>(numeral a / numeral b :: rat)\<rfloor> = numeral a div numeral b"
  using floor_divide_of_int_eq [of "numeral a" "numeral b", where ?'a = rat] by simp

lemma dbl_cert:
  "0 < y \<Longrightarrow> 2 ^ 52 \<le> y * 2 ^ k \<Longrightarrow> y * 2 ^ k < 2 ^ 53 \<Longrightarrow> dbl y s = (y * 2 ^ k, s / 2 ^ k)"
proof (induction k arbitrary: y s)
  case 0
  then show ?case by (simp add: dbl.simps)
next
  case (Suc k)
  have "(1::rat) \<le> 2 ^ k" by simp
  then have "y * 2 \<le> y * 2 * 2 ^ k" using Suc.prems(1) by simp
  then have "y * 2 < 2 ^ 53" using Suc.prems(3) by simp
  then have small: "y < 2 ^ 52" by simp
  have "dbl (2 * y) (s / 2) = (2 * y * 2 ^ k, s / 2 / 2 ^ k)"
    using Suc.prems by (intro Suc.IH) (simp_all add: mult_ac)
  then show ?case using small Suc.prems(1) by (subst dbl.simps) (simp add: mult_ac)
qed

lemma scale_exists_aux:
  fixes y s :: rat
  shows "0 < y \<Longrightarrow> y < 2 ^ 53 \<Longrightarrow> \<exists>k. 2 ^ 52 \<le> y * 2 ^ k \<and> y * 2 ^ k < 2 ^ 53"
proof (induction y s rule: dbl.induct)
  case (1 y s)
  show ?case
  proof (cases "y < 2 ^ 52")
    case True
    then obtain k where "2 ^ 52 \<le> 2 * y * 2 ^ k \<and> 2 * y * 2 ^ k < 2 ^ 53"
      using 1 by auto
    then have "2 ^ 52 \<le> y * 2 ^ Suc k \<and> y * 2 ^ Suc k < 2 ^ 53" by (simp add: mult_ac)
    then show ?thesis by blast
  next
    case False
    then have "2 ^ 52 \<le> y * 2 ^ 0 \<and> y * 2 ^ 0 < 2 ^ 53" using 1 by simp
    then show ?thesis by blast
  qed
qed

lemma scale_exists:
  fixes y :: rat
  shows "0 < y \<Longrightarrow> y < 2 ^ 53 \<Longrightarrow> \<exists>k. 2 ^ 52 \<le> y * 2 ^ k \<and> y * 2 ^ k < 2 ^ 53"
  by (rule scale_exists_aux)

lemma halve_small: "y < 2 ^ 53 \<Longrightarrow> halve y s = (y, s)"
  by (simp add: halve.simps)

lemma roundPos_cert:
  assumes "0 < x" "2 ^ 52 \<le> x * 2 ^ k" "x * 2 ^ k < 2 ^ 53"
  shows "roundPos x = of_int (roundEven (x * 2 ^ k)) / 2 ^ k"
proof -
  have "(1::rat) \<le> 2 ^ k" by simp
  then have "x \<le> x * 2 ^ k" using assms(1) by simp
  then have "x < 2 ^ 53" using assms(3) by simp
  then show ?thesis
    by (simp add: roundPos_def halve_small dbl_cert [OF assms])
qed

lemma double_cert:
  "0 < x \<Longrightarrow> 2 ^ 52 \<le> x * 2 ^ k \<Longrightarrow> x * 2 ^ k < 2 ^ 53 \<Longrightarrow>
     double x = of_int (roundEven (x * 2 ^ k)) / 2 ^ k"
  by (simp add: double_def roundPos_cert)

lemma roundEven_of_int: "roundEven (of_int n) = n"
  by (simp add: roundEven_def)

lemma roundEven_mono: "a \<le> b \<Longrightarrow> roundEven a \<le> roundEven b"
proof -
  assume ab: "a \<le> b"
  have fl: "\<lfloor>a\<rfloor> \<le> \<lfloor>b\<rfloor>" using ab by (rule floor_mono)
  have ra: "roundEven a \<le> \<lfloor>a\<rfloor> + 1" and rb: "\<lfloor>b\<rfloor> \<le> roundEven b"
    by (simp_all add: roundEven_def Let_def)
  show ?thesis
  proof (cases "\<lfloor>a\<rfloor> = \<lfloor>b\<rfloor>")
    case True
    then have "a - of_int \<lfloor>a\<rfloor> \<le> b - of_int \<lfloor>b\<rfloor>" using ab by simp
    then show ?thesis using True by (auto simp: roundEven_def Let_def)
  next
    case False
    then have "\<lfloor>a\<rfloor> + 1 \<le> \<lfloor>b\<rfloor>" using fl by simp
    then show ?thesis using ra rb by simp
  qed
qed

lemma double_mono_pos:
  assumes "0 < x" "x \<le> y" "y < 2 ^ 53"
  shows "double x \<le> double y"
proof -
  have y0: "0 < y" using assms by simp
  have x53: "x < 2 ^ 53" using assms by simp
  obtain j where j: "2 ^ 52 \<le> x * 2 ^ j" "x * 2 ^ j < 2 ^ 53"
    using scale_exists [OF assms(1) x53] by blast
  obtain k where k: "2 ^ 52 \<le> y * 2 ^ k" "y * 2 ^ k < 2 ^ 53"
    using scale_exists [OF y0 assms(3)] by blast
  have dx: "double x = of_int (roundEven (x * 2 ^ j)) / 2 ^ j"
    using assms(1) j by (rule double_cert)
  have dy: "double y = of_int (roundEven (y * 2 ^ k)) / 2 ^ k"
    using y0 k by (rule double_cert)
  have "2 ^ 52 \<le> roundEven (y * 2 ^ k)"
    using roundEven_mono [OF k(1)] roundEven_of_int [of "2 ^ 52"] by simp
  then have "(of_int (2 ^ 52) :: rat) \<le> of_int (roundEven (y * 2 ^ k))"
    by (simp only: of_int_le_iff)
  then have lo: "(2 ^ 52 :: rat) \<le> of_int (roundEven (y * 2 ^ k))" by simp
  have "roundEven (x * 2 ^ j) \<le> 2 ^ 53"
    using roundEven_mono [OF less_imp_le [OF j(2)]] roundEven_of_int [of "2 ^ 53"] by simp
  then have "(of_int (roundEven (x * 2 ^ j)) :: rat) \<le> of_int (2 ^ 53)"
    by (simp only: of_int_le_iff)
  then have hi: "(of_int (roundEven (x * 2 ^ j)) :: rat) \<le> 2 ^ 53" by simp
  consider "j = k" | "k < j" | "j < k" by linarith
  then show ?thesis
  proof cases
    case 1
    then have "x * 2 ^ j \<le> y * 2 ^ k" using assms(2) by simp
    then have "roundEven (x * 2 ^ j) \<le> roundEven (y * 2 ^ k)" by (rule roundEven_mono)
    then show ?thesis using 1 by (simp add: dx dy divide_right_mono)
  next
    case 2
    then have "Suc k \<le> j" by simp
    then have p: "(2::rat) ^ Suc k \<le> 2 ^ j" by (intro power_increasing) simp_all
    have "of_int (roundEven (x * 2 ^ j)) / 2 ^ j \<le> (2 ^ 53 :: rat) / 2 ^ j"
      using hi by (intro divide_right_mono) simp_all
    also have "\<dots> \<le> 2 ^ 53 / 2 ^ Suc k"
      using p by (intro divide_left_mono) simp_all
    also have "\<dots> = 2 ^ 52 / 2 ^ k" by simp
    also have "\<dots> \<le> of_int (roundEven (y * 2 ^ k)) / 2 ^ k"
      using lo by (intro divide_right_mono) simp_all
    finally show ?thesis by (simp add: dx dy)
  next
    case 3
    then have "Suc j \<le> k" by simp
    then have p: "(2::rat) ^ Suc j \<le> 2 ^ k" by (intro power_increasing) simp_all
    have "y * 2 ^ Suc j \<le> y * 2 ^ k" using p y0 by (intro mult_left_mono) simp_all
    then have "y * 2 ^ Suc j < 2 ^ 53" using k(2) by simp
    then have "y * 2 ^ j < 2 ^ 52" by simp
    moreover have "x * 2 ^ j \<le> y * 2 ^ j" using assms(2) by simp
    ultimately have False using j(1) by linarith
    then show ?thesis ..
  qed
qed

lemma double_pos_nonneg: "0 < x \<Longrightarrow> x < 2 ^ 53 \<Longrightarrow> 0 \<le> double x"
proof -
  assume x: "0 < x" "x < 2 ^ 53"
  obtain k where k: "2 ^ 52 \<le> x * 2 ^ k" "x * 2 ^ k < 2 ^ 53"
    using scale_exists [OF x] by blast
  have "2 ^ 52 \<le> roundEven (x * 2 ^ k)"
    using roundEven_mono [OF k(1)] roundEven_of_int [of "2 ^ 52"] by simp
  then have "0 \<le> roundEven (x * 2 ^ k)" by simp
  then show ?thesis using double_cert [OF x(1) k] by simp
qed

lemma double_mono: "0 \<le> x \<Longrightarrow> x \<le> y \<Longrightarrow> y < 2 ^ 53 \<Longrightarrow> double x \<le> double y"
proof (cases "x = 0")
  case True
  assume "0 \<le> x" "x \<le> y" "y < 2 ^ 53"
  then show ?thesis using True double_pos_nonneg [of y]
    by (cases "y = 0") (simp_all add: double_def)
next
  case False
  assume "0 \<le> x" "x \<le> y" "y < 2 ^ 53"
  then show ?thesis using False by (intro double_mono_pos) simp_all
qed

text \<open>Doubles used below: each is its own rounding.\<close>

lemma double_3: "double 3 = 3"
  by (subst double_cert [where k = 51]) (simp_all add: roundEven_def Let_def)

lemma double_6: "double 6 = 6"
  by (subst double_cert [where k = 50]) (simp_all add: roundEven_def Let_def)

lemma double_9: "double 9 = 9"
  by (subst double_cert [where k = 49]) (simp_all add: roundEven_def Let_def)

lemma double_11_2: "double (11 / 2) = 11 / 2"
  by (subst double_cert [where k = 50]) (simp_all add: roundEven_def Let_def floor_rat_numeral)

lemma double_13_2: "double (13 / 2) = 13 / 2"
  by (subst double_cert [where k = 50]) (simp_all add: roundEven_def Let_def floor_rat_numeral)

lemma double_17_2: "double (17 / 2) = 17 / 2"
  by (subst double_cert [where k = 49]) (simp_all add: roundEven_def Let_def floor_rat_numeral)

lemma double_19_2: "double (19 / 2) = 19 / 2"
  by (subst double_cert [where k = 49]) (simp_all add: roundEven_def Let_def floor_rat_numeral)


lemma double_int: "0 < n \<Longrightarrow> n < 2 ^ 53 \<Longrightarrow> double (of_int n) = of_int n"
proof -
  assume n: "0 < n" "n < 2 ^ 53"
  have "(of_int n :: rat) < of_int (2 ^ 53)" using n(2) by (simp only: of_int_less_iff)
  then have x: "(0::rat) < of_int n" "(of_int n :: rat) < 2 ^ 53" using n(1) by simp_all
  obtain k where k: "2 ^ 52 \<le> (of_int n :: rat) * 2 ^ k" "(of_int n :: rat) * 2 ^ k < 2 ^ 53"
    using scale_exists [OF x] by blast
  have "(of_int n :: rat) * 2 ^ k = of_int (n * 2 ^ k)" by simp
  then have "roundEven (of_int n * 2 ^ k) = n * 2 ^ k" by (simp only: roundEven_of_int)
  then show ?thesis using double_cert [OF x(1) k] by simp
qed

lemma double_numeral: "numeral v < (2 ^ 53 :: int) \<Longrightarrow> double (numeral v) = numeral v"
  using double_int [of "numeral v"] by simp







subsection \<open>Scoring\<close>

lemma rat_mod_bound: "0 < m \<Longrightarrow> of_nat m \<le> b + 1 \<Longrightarrow> (of_nat (n mod m) :: rat) \<le> b"
proof -
  assume m: "0 < m" and b: "of_nat m \<le> b + 1"
  have "Suc (n mod m) \<le> m" using m by (simp add: Suc_le_eq)
  then have "(of_nat (Suc (n mod m)) :: rat) \<le> of_nat m" by (simp only: of_nat_le_iff)
  then show ?thesis using b by simp
qed

lemma chars_mod_30: "(of_nat (length t mod 30) :: rat) \<le> 29"
  by (rule rat_mod_bound) simp_all

lemma chars_mod_20: "(of_nat (length t mod 20) :: rat) \<le> 19"
  by (rule rat_mod_bound) simp_all

lemma words_mod_40: "(of_nat (length (splitWs [] t) mod 40) :: rat) \<le> 39"
  by (rule rat_mod_bound) simp_all

lemma words_mod_20: "(of_nat (length (splitWs [] t) mod 20) :: rat) \<le> 19"
  by (rule rat_mod_bound) simp_all

text \<open>
  A sub-score is \<open>double (b + double q)\<close> with a base \<open>b\<close> that is a double and a
  quotient \<open>q\<close> between 0 and 3; rounding is monotone and keeps doubles, so the
  sub-score lies between \<open>b\<close> and \<open>b + 3\<close>, below the cap of 9.8.
\<close>

lemma subscore_bounds:
  assumes q: "0 \<le> q" "q \<le> 3" and b: "0 \<le> b" "b \<le> 13 / 2" "double b = b"
    "double (b + 3) = b + 3"
  shows "b \<le> double (b + double q)" "double (b + double q) \<le> b + 3"
    "min (double (98 / 10)) (double (b + double q)) = double (b + double q)"
proof -
  have "double 0 \<le> double q" using q by (intro double_mono) simp_all
  then have q0: "0 \<le> double q" by (simp add: double_def)
  have "double q \<le> double 3" using q by (intro double_mono) simp_all
  then have q3: "double q \<le> 3" by (simp add: double_3)
  have "double b \<le> double (b + double q)" using q0 q3 b by (intro double_mono) simp_all
  then show lo: "b \<le> double (b + double q)" by (simp add: b)
  have "double (b + double q) \<le> double (b + 3)" using q0 q3 b by (intro double_mono) simp_all
  then show hi: "double (b + double q) \<le> b + 3" by (simp add: b)
  have "double (19 / 2) \<le> double (98 / 10)" by (intro double_mono) simp_all
  then have "19 / 2 \<le> double (98 / 10)" by (simp add: double_19_2)
  then have "double (b + double q) \<le> double (98 / 10)" using hi b by simp
  then show "min (double (98 / 10)) (double (b + double q)) = double (b + double q)"
    by (simp add: min_def)
qed

lemma acc_scoreOf:
  "acc (scoreOf t) = double (65 / 10 + double (of_nat (length t mod 30) / 10))"
  using chars_mod_30 [of t] subscore_bounds(3) [of "of_nat (length t mod 30) / 10" "13 / 2"]
  by (simp add: scoreOf_def Let_def double_13_2 double_19_2)

lemma comp_scoreOf:
  "comp' (scoreOf t) = double (6 + double (of_nat (length (splitWs [] t) mod 40) / 14))"
  using words_mod_40 [of t] subscore_bounds(3) [of "of_nat (length (splitWs [] t) mod 40) / 14" 6]
  by (simp add: scoreOf_def Let_def double_6 double_9)

lemma conc_scoreOf:
  "conc (scoreOf t) = double (55 / 10 + double (of_nat (length t mod 20) / 8))"
  using chars_mod_20 [of t] subscore_bounds(3) [of "of_nat (length t mod 20) / 8" "11 / 2"]
  by (simp add: scoreOf_def Let_def double_11_2 double_17_2)

lemma tone_scoreOf:
  "tone (scoreOf t) = double (65 / 10 + double (of_nat (length (splitWs [] t) mod 20) / 10))"
  using words_mod_20 [of t] subscore_bounds(3) [of "of_nat (length (splitWs [] t) mod 20) / 10" "13 / 2"]
  by (simp add: scoreOf_def Let_def double_13_2 double_19_2)

lemma scoreOf_bounds:
  "65 / 10 \<le> acc (scoreOf t)" "acc (scoreOf t) \<le> 95 / 10"
  "6 \<le> comp' (scoreOf t)" "comp' (scoreOf t) \<le> 9"
  "55 / 10 \<le> conc (scoreOf t)" "conc (scoreOf t) \<le> 85 / 10"
  "65 / 10 \<le> tone (scoreOf t)" "tone (scoreOf t) \<le> 95 / 10"
proof -
  show "65 / 10 \<le> acc (scoreOf t)" "acc (scoreOf t) \<le> 95 / 10"
    using chars_mod_30 [of t] subscore_bounds(1,2) [of "of_nat (length t mod 30) / 10" "13 / 2"]
    by (simp_all add: acc_scoreOf double_13_2 double_19_2)
  show "6 \<le> comp' (scoreOf t)" "comp' (scoreOf t) \<le> 9"
    using words_mod_40 [of t]
      subscore_bounds(1,2) [of "of_nat (length (splitWs [] t) mod 40) / 14" 6]
    by (simp_all add: comp_scoreOf double_6 double_9)
  show "55 / 10 \<le> conc (scoreOf t)" "conc (scoreOf t) \<le> 85 / 10"
    using chars_mod_20 [of t] subscore_bounds(1,2) [of "of_nat (length t mod 20) / 8" "11 / 2"]
    by (simp_all add: conc_scoreOf double_11_2 double_17_2)
  show "65 / 10 \<le> tone (scoreOf t)" "tone (scoreOf t) \<le> 95 / 10"
    using words_mod_20 [of t]
      subscore_bounds(1,2) [of "of_nat (length (splitWs [] t) mod 20) / 10" "13 / 2"]
    by (simp_all add: tone_scoreOf double_13_2 double_19_2)
qed

lemma map_of_setProp: "map_of (setProp k v kvs) = (map_of kvs)(k \<mapsto> v)"
  by (induction kvs) (auto simp: fun_eq_iff)


lemma scores_recordScore: "map_of (scores (recordScore r t a)) = (map_of (scores a))(r \<mapsto> scoreOf t)"
  by (simp add: recordScore_def map_of_setProp)

text \<open>
  Claim C8. For every text, the four sub-scores that \<^verbatim>\<open>recordScore\<close> computes are
  non-negative and strictly below 10, and the record stored for the agent is a function
  of the text alone: it is \<open>scoreOf t\<close> whatever the agent and the state, so two calls
  with the same text store the same sub-scores.
\<close>

theorem scoreOf_range_deterministic:
  "0 \<le> acc (scoreOf t) \<and> acc (scoreOf t) < 10 \<and>
   0 \<le> comp' (scoreOf t) \<and> comp' (scoreOf t) < 10 \<and>
   0 \<le> conc (scoreOf t) \<and> conc (scoreOf t) < 10 \<and>
   0 \<le> tone (scoreOf t) \<and> tone (scoreOf t) < 10 \<and>
   map_of (scores (recordScore r1 t a1)) r1 = Some (scoreOf t) \<and>
   map_of (scores (recordScore r1 t a1)) r1 = map_of (scores (recordScore r2 t a2)) r2"
proof -
  have "map_of (scores (recordScore r t a)) r = Some (scoreOf t)" for r a
    by (simp add: scores_recordScore)
  then show ?thesis using scoreOf_bounds [of t] by simp
qed





subsection \<open>Council selection\<close>

text \<open>
  Claim C1 fails as stated: \<^verbatim>\<open>selectCouncil\<close> assigns \<^verbatim>\<open>state.selectedCouncil\<close>
  before it looks the key up. With only the council \<^verbatim>\<open>general\<close> loaded and selected,
  selecting the unknown key \<^verbatim>\<open>bogus\<close> makes \<^verbatim>\<open>bogus\<close> the selected council.
\<close>

theorem selectCouncil_unknown_counterexample:
  "councils loaded (str ''bogus'') = None \<and>
   selectedCouncil loaded = str ''general'' \<and>
   selectedCouncil (selectCouncil (str ''bogus'') loaded) = str ''bogus''"
  by (simp add: loaded_def initial_def selectCouncil_def councilLookup_def objectPrototype_def
      str_def)

text \<open>
  Claim C1, amended. \<^verbatim>\<open>selectCouncil\<close> always stores the key it is given as the
  selected council and never changes the loaded configuration. For a key that is
  neither in the configuration nor a property name of \<^verbatim>\<open>Object.prototype\<close> nothing
  else changes: the top bar and the sidebar keep showing the previous council. For a
  property name of \<^verbatim>\<open>Object.prototype\<close> that is not in the configuration the lookup
  finds the inherited member, and the top bar is rewritten from it: the name is
  \<^verbatim>\<open>Object\<close> for \<^verbatim>\<open>constructor\<close> and the key otherwise, the strategy \<^verbatim>\<open>debate\<close>, and
  no agents. Afterwards the selected council is a key of the configuration exactly when
  the key passed is one.
\<close>

theorem selectCouncil_stores_key:
  "selectedCouncil (selectCouncil key a) = key \<and>
   councils (selectCouncil key a) = councils a \<and>
   (councils a key = None \<and> key \<notin> set objectPrototype \<longrightarrow>
      selectCouncil key a = a\<lparr>selectedCouncil := key\<rparr>) \<and>
   (councils a key = None \<and> key \<in> set objectPrototype \<longrightarrow>
      council_name (selectCouncil key a) =
        (if key = str ''constructor'' then str ''Object'' else key) \<and>
      council_info (selectCouncil key a) = Some (str ''debate'', 0)) \<and>
   (selectedCouncil (selectCouncil key a) \<in> dom (councils (selectCouncil key a))
      \<longleftrightarrow> key \<in> dom (councils a))"
proof -
  have ne: "key \<noteq> []" if "key \<in> set objectPrototype"
    using that by (auto simp: objectPrototype_def str_def)
  have "selectedCouncil (selectCouncil key a) = key" "councils (selectCouncil key a) = councils a"
    by (simp_all add: selectCouncil_def Let_def split: option.splits)
  moreover have "selectCouncil key a = a\<lparr>selectedCouncil := key\<rparr>"
    if "councils a key = None" "key \<notin> set objectPrototype"
    using that by (simp add: selectCouncil_def councilLookup_def Let_def)
  moreover have "council_name (selectCouncil key a) =
        (if key = str ''constructor'' then str ''Object'' else key) \<and>
      council_info (selectCouncil key a) = Some (str ''debate'', 0)"
    if "councils a key = None" "key \<in> set objectPrototype"
    using that ne by (simp add: selectCouncil_def councilLookup_def Let_def strOr_def str_def)
  ultimately show ?thesis by (simp add: dom_def)
qed

theorem selectCouncil_stores_key_witness:
  "councils loaded (str ''bogus'') = None \<and> str ''bogus'' \<notin> set objectPrototype \<and>
   selectCouncil (str ''bogus'') loaded = loaded\<lparr>selectedCouncil := str ''bogus''\<rparr>"
proof -
  have h: "councils loaded (str ''bogus'') = None \<and> str ''bogus'' \<notin> set objectPrototype"
    by (simp add: loaded_def initial_def objectPrototype_def str_def)
  then show ?thesis using selectCouncil_stores_key [of "str ''bogus''" loaded] by blast
qed

subsection \<open>Task submission\<close>

text \<open>
  Claim C2 fails as stated: \<^verbatim>\<open>sendTask\<close> called while a session is running returns at
  its first line and shows no message.
\<close>

theorem sendTask_running_counterexample:
  "isRunning busy \<and> chat_messages (sendTask 2000 busy) = chat_messages busy"
  by (simp add: busy_def sendTask_def)

text \<open>
  Claim C2, amended. A call to \<^verbatim>\<open>sendTask\<close> while a session is running, or while the
  connection is not open, leaves the state object as it was (running flag, colour map
  and counter, score map, session clock, and the socket with the messages sent on it).
  The only effect it can have is the message \<^verbatim>\<open>WebSocket not connected.\<close>, appended
  to the chat when no session is running and the trimmed input is not empty; in every
  other case the call returns silently and changes nothing.
\<close>

theorem sendTask_rejected:
  "isRunning a \<or> \<not> connected a \<longrightarrow>
     state.truncate (sendTask now a) = state.truncate a \<and>
     sendTask now a =
       (if \<not> isRunning a \<and> trim (input_value a) \<noteq> []
        then a\<lparr>chat_messages :=
                 chat_messages a @ [ErrorMessage (str ''WebSocket not connected.'')]\<rparr>
        else a)"
  by (simp add: sendTask_def Let_def addError_def appendMessage_def state.truncate_def)

theorem sendTask_rejected_witness:
  "\<not> connected loaded \<and>
   sendTask 2000 (loaded\<lparr>input_value := str ''hi''\<rparr>) =
     loaded\<lparr>input_value := str ''hi'',
            chat_messages := [ErrorMessage (str ''WebSocket not connected.'')]\<rparr>"
  using sendTask_rejected [of "loaded\<lparr>input_value := str ''hi''\<rparr>" 2000]
  by (simp add: loaded_def initial_def connected_def trim_def str_def isWhiteSpace_def)

subsection \<open>Event dispatch\<close>

lemma trim_blank: "list_all isWhiteSpace s \<Longrightarrow> trim s = []"
proof -
  assume "list_all isWhiteSpace s"
  then have "dropWhile isWhiteSpace s = []"
    by (auto simp: list_all_iff dest: set_dropWhileD)
  then show ?thesis by (simp only: trim_def rev.simps dropWhile.simps)
qed

lemma trim_Nil: "trim [] = []"
  by (simp add: trim_def)

lemma shownContent_blank: "blank content \<Longrightarrow> shownContent content = placeholder"
  by (auto simp: blank_def shownContent_def strOr_def trim_blank trim_Nil split: option.splits)

text \<open>
  The sub-scores of the placeholder, 13 code units in 2 pieces: the rounded sums are the
  doubles nearest to 7.8, 43/7, 7.125 and 6.7.
\<close>

lemma placeholder_acc: "double (13 / 2 + double (13 / 10)) = double (39 / 5)"
proof -
  have a: "double (13 / 10) = 5854679515581645 / 2 ^ 52"
    by (subst double_cert [where k = 52]) (simp_all add: roundEven_def Let_def floor_rat_numeral)
  have b: "double (13 / 2 + 5854679515581645 / 2 ^ 52) = 8782019273372467 / 2 ^ 50"
    by (subst double_cert [where k = 50]) (simp_all add: roundEven_def Let_def floor_rat_numeral)
  have c: "double (39 / 5) = 8782019273372467 / 2 ^ 50"
    by (subst double_cert [where k = 50]) (simp_all add: roundEven_def Let_def floor_rat_numeral)
  show ?thesis by (simp only: a b c)
qed

lemma placeholder_comp: "double (6 + double (1 / 7)) = double (43 / 7)"
proof -
  have a: "double (1 / 7) = 2573485501354569 / 2 ^ 54"
    by (subst double_cert [where k = 55]) (simp_all add: roundEven_def Let_def floor_rat_numeral)
  have b: "double (6 + 2573485501354569 / 2 ^ 54) = 6916242284890405 / 2 ^ 50"
    by (subst double_cert [where k = 50]) (simp_all add: roundEven_def Let_def floor_rat_numeral)
  have c: "double (43 / 7) = 6916242284890405 / 2 ^ 50"
    by (subst double_cert [where k = 50]) (simp_all add: roundEven_def Let_def floor_rat_numeral)
  show ?thesis by (simp only: a b c)
qed

lemma placeholder_conc: "double (11 / 2 + double (13 / 8)) = double (57 / 8)"
proof -
  have a: "double (13 / 8) = 13 / 2 ^ 3"
    by (subst double_cert [where k = 52]) (simp_all add: roundEven_def Let_def floor_rat_numeral)
  have b: "double (11 / 2 + 13 / 2 ^ 3) = 57 / 2 ^ 3"
    by (subst double_cert [where k = 50]) (simp_all add: roundEven_def Let_def floor_rat_numeral)
  have c: "double (57 / 8) = 57 / 2 ^ 3"
    by (subst double_cert [where k = 50]) (simp_all add: roundEven_def Let_def floor_rat_numeral)
  show ?thesis by (simp only: a b c)
qed

lemma placeholder_tone: "double (13 / 2 + double (1 / 5)) = double (67 / 10)"
proof -
  have a: "double (1 / 5) = 3602879701896397 / 2 ^ 54"
    by (subst double_cert [where k = 55]) (simp_all add: roundEven_def Let_def floor_rat_numeral)
  have b: "double (13 / 2 + 3602879701896397 / 2 ^ 54) = 7543529375845581 / 2 ^ 50"
    by (subst double_cert [where k = 50]) (simp_all add: roundEven_def Let_def floor_rat_numeral)
  have c: "double (67 / 10) = 7543529375845581 / 2 ^ 50"
    by (subst double_cert [where k = 50]) (simp_all add: roundEven_def Let_def floor_rat_numeral)
  show ?thesis by (simp only: a b c)
qed

lemma scoreOf_placeholder:
  "scoreOf placeholder =
     \<lparr>acc = double (78 / 10), comp' = double (43 / 7), conc = double (57 / 8),
      tone = double (67 / 10)\<rparr>"
proof -
  have n: "length placeholder = 13" "length (splitWs [] placeholder) = 2"
    by (simp_all add: placeholder_def str_def isWhiteSpace_def)
  show ?thesis
    by (rule score.equality)
      (simp_all add: acc_scoreOf comp_scoreOf conc_scoreOf tone_scoreOf n placeholder_acc
        placeholder_comp placeholder_conc placeholder_tone)
qed

lemma placeholder_nonempty: "placeholder \<noteq> []"
  by (simp add: placeholder_def str_def)

lemma chat_addAgentCard:
  "chat_messages (addAgentCard r m c False a) =
     chat_messages a @ [AgentCard r m c False (fst (colorIndex r a))]"
  by (simp add: addAgentCard_def appendMessage_def colorIndex_def split: prod.splits)

lemma chat_recordScore: "chat_messages (recordScore r c a) = chat_messages a"
  by (simp add: recordScore_def)

lemma isRunning_recordScore: "isRunning (recordScore r c a) = isRunning a"
  by (simp add: recordScore_def)

lemma isRunning_addAgentCard: "isRunning (addAgentCard r m c md a) = isRunning a"
  by (simp add: addAgentCard_def appendMessage_def colorIndex_def split: prod.splits)

lemma deliver_AgentDone:
  "deliver (AgentDone agent content model) a =
     recordScore agent (shownContent content)
       (addAgentCard agent model (shownContent content) False a)"
  by (simp add: deliver_def)

text \<open>
  Claim C5. For an \<^verbatim>\<open>agent_done\<close> event whose content is missing, empty or white
  space only, the handler substitutes the fixed placeholder \<^verbatim>\<open>[No response]\<close>, appends
  an agent card whose content is the placeholder (which is not empty), and records for
  the agent the score computed from the placeholder text.
\<close>

theorem agent_done_blank_placeholder:
  "blank content \<Longrightarrow>
   handleEvent (AgentDone agent content model) a =
     Inr (recordScore agent placeholder (addAgentCard agent model placeholder False a)) \<and>
   chat_messages (deliver (AgentDone agent content model) a) =
     chat_messages a @ [AgentCard agent model placeholder False (fst (colorIndex agent a))] \<and>
   map_of (scores (deliver (AgentDone agent content model) a)) agent = Some (scoreOf placeholder) \<and>
   placeholder = str ''[No response]'' \<and> placeholder \<noteq> [] \<and>
   scoreOf placeholder =
     \<lparr>acc = double (78 / 10), comp' = double (43 / 7), conc = double (57 / 8),
      tone = double (67 / 10)\<rparr>"
  using scoreOf_placeholder placeholder_nonempty
  by (simp add: deliver_AgentDone shownContent_blank chat_recordScore chat_addAgentCard
      scores_recordScore placeholder_def)

theorem agent_done_blank_placeholder_witness:
  "blank (Some (str ''  '')) \<and>
   chat_messages (deliver (AgentDone (str ''Alpha'') (Some (str ''  '')) None) initial) =
     [AgentCard (str ''Alpha'') None (str ''[No response]'') False (Index 1)] \<and>
   map_of (scores (deliver (AgentDone (str ''Alpha'') (Some (str ''  '')) None) initial)) (str ''Alpha'')
     = Some \<lparr>acc = double (78 / 10), comp' = double (43 / 7), conc = double (57 / 8),
             tone = double (67 / 10)\<rparr>"
proof -
  have b: "blank (Some (str ''  ''))" by (simp add: blank_def str_def isWhiteSpace_def)
  have c: "fst (colorIndex (str ''Alpha'') initial) = Index 1" "chat_messages initial = []"
    by (simp_all add: colorIndex_def colorLookup_def objectPrototype_def str_def initial_def)
  show ?thesis
    using agent_done_blank_placeholder [OF b, of "str ''Alpha''" None initial] b c
    by (simp add: placeholder_def)
qed

text \<open>
  Claim C7. When \<^verbatim>\<open>JSON.parse\<close> rejects the payload, the message handler returns
  normally (its result is an application, never an error) with the application exactly
  as it was: no state change, nothing rendered.
\<close>

theorem onmessage_invalid_json:
  "parse payload = Inl err \<Longrightarrow> onmessage parse payload a = a"
  by (simp add: onmessage_def)

theorem onmessage_invalid_json_witness:
  "demoParse (str ''not json'') = Inl SyntaxError \<and>
   onmessage demoParse (str ''not json'') busy = busy"
proof -
  have h: "demoParse (str ''not json'') = Inl SyntaxError" by (simp add: demoParse_def str_def)
  show ?thesis using onmessage_invalid_json [of demoParse "str ''not json''" SyntaxError busy] h by simp
qed

text \<open>
  Claim C9. \<^verbatim>\<open>handleEvent\<close> does not test the running flag: in every state an
  \<^verbatim>\<open>agent_done\<close> event appends a card and creates or overwrites the score record of
  the agent, and leaves the running flag as it was. In particular this happens in the
  idle state reached by \<^verbatim>\<open>council_done\<close> or by \<^verbatim>\<open>error\<close>.
\<close>

theorem agent_done_not_gated:
  "chat_messages (deliver (AgentDone agent content model) a) =
     chat_messages a @
       [AgentCard agent model (shownContent content) False (fst (colorIndex agent a))] \<and>
   map_of (scores (deliver (AgentDone agent content model) a)) agent =
     Some (scoreOf (shownContent content)) \<and>
   isRunning (deliver (AgentDone agent content model) a) = isRunning a \<and>
   \<not> isRunning (deliver CouncilDone a) \<and>
   map_of (scores (deliver (AgentDone agent content model) (deliver CouncilDone a))) agent =
     Some (scoreOf (shownContent content)) \<and>
   \<not> isRunning (deliver (ErrorEv msg) a) \<and>
   map_of (scores (deliver (AgentDone agent content model) (deliver (ErrorEv msg) a))) agent =
     Some (scoreOf (shownContent content))"
  by (simp add: deliver_AgentDone chat_recordScore chat_addAgentCard scores_recordScore
      isRunning_recordScore isRunning_addAgentCard)
    (simp add: deliver_def addStatus_def appendMessage_def renderScoreboard_def stopTimer_def
      updateInputState_def addError_def)

subsection \<open>Session lifecycle\<close>

lemmas event_defs =
  deliver_def addStatus_def addRoundSeparator_def addError_def appendMessage_def
  addAgentCard_def colorIndex_def recordScore_def renderScoreboard_def stopTimer_def
  updateInputState_def

lemma deliver_terminal:
  "terminal e \<Longrightarrow>
     \<not> isRunning (deliver e a) \<and>
     timerInterval (deliver e a) = (if truthy (timerInterval a) then None else timerInterval a) \<and>
     cleared (deliver e a) =
       (if truthy (timerInterval a) then cleared a @ [the (timerInterval a)] else cleared a)"
  by (cases e) (simp_all add: event_defs)

lemma deliver_nonterminal:
  "\<not> terminal e \<Longrightarrow>
     isRunning (deliver e a) = isRunning a \<and>
     timerInterval (deliver e a) = timerInterval a \<and>
     cleared (deliver e a) = cleared a"
  by (cases e) (simp_all add: event_defs split: option.splits prod.splits)

lemma last_trace: "last (trace evs a) = run evs a"
  by (induction evs arbitrary: a) (simp_all add: run_def, (case_tac evs; simp))

lemma idle_Cons:
  "idleTransitions (a # trace evs b) =
     (if isRunning a \<and> \<not> isRunning b then 1 else 0) + idleTransitions (trace evs b)"
  by (cases evs) simp_all

lemma stopped_stays:
  "\<not> isRunning a \<Longrightarrow> \<not> truthy (timerInterval a) \<Longrightarrow>
     idleTransitions (trace evs a) = 0 \<and> \<not> isRunning (run evs a) \<and>
     timerInterval (run evs a) = timerInterval a \<and> cleared (run evs a) = cleared a"
proof (induction evs arbitrary: a)
  case Nil
  then show ?case by (simp add: run_def)
next
  case (Cons e evs)
  have step: "\<not> isRunning (deliver e a) \<and> timerInterval (deliver e a) = timerInterval a \<and>
      cleared (deliver e a) = cleared a"
    using Cons.prems deliver_terminal [of e a] deliver_nonterminal [of e a]
    by (cases "terminal e") simp_all
  then have "\<not> isRunning (deliver e a)" "\<not> truthy (timerInterval (deliver e a))"
    using Cons.prems by simp_all
  from Cons.IH [OF this] step Cons.prems show ?case
    by (simp add: idle_Cons run_def)
qed

lemma running_until_done:
  "isRunning a \<Longrightarrow> truthy (timerInterval a) \<Longrightarrow>
     idleTransitions (trace (evs @ [CouncilDone]) a) = 1 \<and>
     \<not> isRunning (run (evs @ [CouncilDone]) a) \<and>
     timerInterval (run (evs @ [CouncilDone]) a) = None \<and>
     cleared (run (evs @ [CouncilDone]) a) = cleared a @ [the (timerInterval a)]"
proof (induction evs arbitrary: a)
  case Nil
  then show ?case using deliver_terminal [of CouncilDone a] by (simp add: run_def)
next
  case (Cons e evs)
  show ?case
  proof (cases "terminal e")
    case True
    then have step: "\<not> isRunning (deliver e a)" "timerInterval (deliver e a) = None"
      "cleared (deliver e a) = cleared a @ [the (timerInterval a)]"
      using Cons.prems deliver_terminal [of e a] by simp_all
    then have "\<not> truthy (timerInterval (deliver e a))" by (simp add: truthy_def)
    from stopped_stays [OF step(1) this, of "evs @ [CouncilDone]"] step Cons.prems
    show ?thesis by (simp add: idle_Cons run_def)
  next
    case False
    then have step: "isRunning (deliver e a)" "timerInterval (deliver e a) = timerInterval a"
      "cleared (deliver e a) = cleared a"
      using Cons.prems deliver_nonterminal [of e a] by simp_all
    then have "truthy (timerInterval (deliver e a))" using Cons.prems by simp
    from Cons.IH [OF step(1) this] step Cons.prems
    show ?thesis by (simp add: idle_Cons run_def)
  qed
qed

lemma run_snoc: "run (evs @ [e]) a = deliver e (run evs a)"
  by (simp add: run_def)

lemma deliver_CouncilDone_render:
  "score_list (deliver CouncilDone b) =
     Some (scoreboardRows (getRubric (deliver CouncilDone b))
             (scores (deliver CouncilDone b))) \<and>
   scores (deliver CouncilDone b) = scores b \<and>
   chat_messages (deliver CouncilDone b) =
     chat_messages b @ [StatusMessage (str ''Session complete'')]"
  by (simp add: event_defs getRubric_def)

text \<open>
  Claim C3. Take a running session whose clock is ticking (the state that an accepted
  \<^verbatim>\<open>sendTask\<close> leaves) and any sequence of inbound events followed by
  \<^verbatim>\<open>council_done\<close>. Over the whole sequence the running flag goes from true to false
  exactly once and \<^verbatim>\<open>clearInterval\<close> is called exactly once, on the session's timer
  (at the first \<^verbatim>\<open>error\<close> or \<^verbatim>\<open>council_done\<close> of the sequence); when the final
  \<^verbatim>\<open>council_done\<close> has been handled the session is idle, the timer handle is null,
  the scoreboard shows the ranking of the current scores under the current rubric, and
  the status line \<^verbatim>\<open>Session complete\<close> has been appended. In any state, handling
  \<^verbatim>\<open>council_done\<close> leaves the session idle and calls \<^verbatim>\<open>clearInterval\<close> once if a
  timer is set and not at all otherwise.
\<close>

theorem council_done_completes_once:
  "(isRunning a \<and> truthy (timerInterval a) \<longrightarrow>
     idleTransitions (trace (evs @ [CouncilDone]) a) = 1 \<and>
     \<not> isRunning (run (evs @ [CouncilDone]) a) \<and>
     timerInterval (run (evs @ [CouncilDone]) a) = None \<and>
     cleared (run (evs @ [CouncilDone]) a) = cleared a @ [the (timerInterval a)] \<and>
     score_list (run (evs @ [CouncilDone]) a) =
       Some (scoreboardRows (getRubric (run (evs @ [CouncilDone]) a))
               (scores (run (evs @ [CouncilDone]) a))) \<and>
     scores (run (evs @ [CouncilDone]) a) = scores (run evs a) \<and>
     chat_messages (run (evs @ [CouncilDone]) a) =
       chat_messages (run evs a) @ [StatusMessage (str ''Session complete'')] \<and>
     last (trace (evs @ [CouncilDone]) a) = run (evs @ [CouncilDone]) a) \<and>
   \<not> isRunning (deliver CouncilDone b) \<and>
   cleared (deliver CouncilDone b) =
     (if truthy (timerInterval b) then cleared b @ [the (timerInterval b)] else cleared b)"
  using running_until_done [of a evs] deliver_CouncilDone_render [of "run evs a"]
    last_trace [of "evs @ [CouncilDone]" a] deliver_terminal [of CouncilDone b]
  by (simp add: run_snoc)

theorem council_done_completes_once_witness:
  "isRunning (sendTask 1000 ready) \<and> truthy (timerInterval (sendTask 1000 ready)) \<and>
   idleTransitions
     (trace ([Status (Some (str ''thinking'')), AgentDone (str ''Alpha'') (Some (str ''ok'')) None,
              ErrorEv None] @ [CouncilDone]) (sendTask 1000 ready)) = 1 \<and>
   cleared
     (run ([Status (Some (str ''thinking'')), AgentDone (str ''Alpha'') (Some (str ''ok'')) None,
            ErrorEv None] @ [CouncilDone]) (sendTask 1000 ready)) = [1]"
proof -
  let ?a = "sendTask 1000 ready"
  let ?evs = "[Status (Some (str ''thinking'')), AgentDone (str ''Alpha'') (Some (str ''ok'')) None,
               ErrorEv None]"
  have h: "isRunning ?a" "timerInterval ?a = Some 1" "cleared ?a = []"
    by (simp_all add: sendTask_def ready_def loaded_def initial_def connected_def trim_def
        str_def isWhiteSpace_def Let_def startTimer_def updateInputState_def wsSend_def
        addUserMessage_def appendMessage_def truthy_def)
  then have hyp: "isRunning ?a \<and> truthy (timerInterval ?a)"
    by (simp add: truthy_def)
  note concl = council_done_completes_once [of ?a ?evs, THEN conjunct1, rule_format, OF hyp]
  have "idleTransitions (trace (?evs @ [CouncilDone]) ?a) = 1"
    using concl by blast
  moreover have "cleared (run (?evs @ [CouncilDone]) ?a) = cleared ?a @ [the (timerInterval ?a)]"
    using concl by blast
  then have "cleared (run (?evs @ [CouncilDone]) ?a) = [1]"
    by (simp only: h option.sel append_Nil)
  ultimately show ?thesis using hyp by blast
qed

subsection \<open>Ranking\<close>


lemma scoreboardRow_fields:
  "role (scoreboardRow rb (r, s)) = r" "acc (scoreboardRow rb (r, s)) = acc s"
  "comp' (scoreboardRow rb (r, s)) = comp' s" "conc (scoreboardRow rb (r, s)) = conc s"
  "tone (scoreboardRow rb (r, s)) = tone s"
  "overall (scoreboardRow rb (r, s)) =
     double (double (double (double (double (acc s * wa rb) + double (comp' s * wc rb))
                             + double (conc s * wk rb))
                     + double (tone s * wt rb))
             / scoreboardTotal rb)"
  by (simp_all add: scoreboardRow_def)







lemma objectEntries_listed:
  assumes "\<forall>p \<in> set kvs. listed (fst p)"
  shows "objectEntries kvs = kvs"
proof -
  have "filter (\<lambda>p. isArrayIndex (fst p)) kvs = []"
    using assms by (auto simp: filter_empty_conv listed_def)
  moreover have "filter (\<lambda>p. listed (fst p)) kvs = kvs"
    using assms by (simp add: filter_id_conv)
  ultimately show ?thesis by (simp add: objectEntries_def)
qed


lemma listed_A_B: "listed (str ''A'')" "listed (str ''B'')"
  by (simp_all add: listed_def isArrayIndex_def isDigit_def indexValue_def str_def)






text \<open>
  The rounding decides the order of close scores. Under the default weights the answers
  \<open>nearTieA\<close> and \<open>nearTieB\<close> get overall scores that differ by \<open>1 / 2 ^ 50\<close>, one unit in
  the last place, and the agent scored second is ranked first.
\<close>

lemma scoreboardTotal_default: "scoreboardTotal defaultRubric = 100"
  by (simp add: scoreboardTotal_def numOr_def defaultRubric_def double_numeral)

lemma scoreOf_nearTieA:
  "scoreOf nearTieA =
     \<lparr>acc = 4278419646001971 / 2 ^ 49, comp' = 4262335361618505 / 2 ^ 49,
      conc = 55 / 2 ^ 3, tone = 7543529375845581 / 2 ^ 50\<rparr>"
proof -
  have n: "length nearTieA mod 30 = 11" "length nearTieA mod 20 = 11"
    "length (splitWs [] nearTieA) mod 40 = 22" "length (splitWs [] nearTieA) mod 20 = 2"
    by (simp_all add: nearTieA_def str_def isWhiteSpace_def)
  have acc1: "double (11 / 10) = 2476979795053773 / 2 ^ 51"
    by (subst double_cert [where k = 52]) (simp_all add: roundEven_def Let_def floor_rat_numeral)
  have acc2: "double (65 / 10 + 2476979795053773 / 2 ^ 51) = 4278419646001971 / 2 ^ 49"
    by (subst double_cert [where k = 50]) (simp_all add: roundEven_def Let_def floor_rat_numeral)
  have comp1: "double (22 / 14) = 7077085128725065 / 2 ^ 52"
    by (subst double_cert [where k = 52]) (simp_all add: roundEven_def Let_def floor_rat_numeral)
  have comp2: "double (6 + 7077085128725065 / 2 ^ 52) = 4262335361618505 / 2 ^ 49"
    by (subst double_cert [where k = 50]) (simp_all add: roundEven_def Let_def floor_rat_numeral)
  have conc1: "double (11 / 8) = 11 / 2 ^ 3"
    by (subst double_cert [where k = 52]) (simp_all add: roundEven_def Let_def floor_rat_numeral)
  have conc2: "double (55 / 10 + 11 / 2 ^ 3) = 55 / 2 ^ 3"
    by (subst double_cert [where k = 50]) (simp_all add: roundEven_def Let_def floor_rat_numeral)
  have tone1: "double (2 / 10) = 3602879701896397 / 2 ^ 54"
    by (subst double_cert [where k = 55]) (simp_all add: roundEven_def Let_def floor_rat_numeral)
  have tone2: "double (65 / 10 + 3602879701896397 / 2 ^ 54) = 7543529375845581 / 2 ^ 50"
    by (subst double_cert [where k = 50]) (simp_all add: roundEven_def Let_def floor_rat_numeral)
  have f: "acc (scoreOf nearTieA) = 4278419646001971 / 2 ^ 49" "comp' (scoreOf nearTieA) = 4262335361618505 / 2 ^ 49"
    "conc (scoreOf nearTieA) = 55 / 2 ^ 3" "tone (scoreOf nearTieA) = 7543529375845581 / 2 ^ 50"
    by (simp_all only: acc_scoreOf comp_scoreOf conc_scoreOf tone_scoreOf n of_nat_numeral
        of_nat_1 acc1 acc2 comp1 comp2 conc1 conc2 tone1 tone2)
  show ?thesis by (rule score.equality) (simp_all add: f)
qed

lemma overall_nearTieA:
  "overall (scoreboardRow defaultRubric (r, scoreOf nearTieA)) = 8274359047519319 / 2 ^ 50"
proof -
  have p1: "double (4278419646001971 / 2 ^ 49 * 45) = 342"
    by (subst double_cert [where k = 44]) (simp_all add: roundEven_def Let_def floor_rat_numeral)
  have p2: "double (4262335361618505 / 2 ^ 49 * 25) = 3329949501264457 / 2 ^ 44"
    by (subst double_cert [where k = 45]) (simp_all add: roundEven_def Let_def floor_rat_numeral)
  have p3: "double (55 / 2 ^ 3 * 15) = 825 / 2 ^ 3"
    by (subst double_cert [where k = 46]) (simp_all add: roundEven_def Let_def floor_rat_numeral)
  have p4: "double (7543529375845581 / 2 ^ 50 * 15) = 201 / 2 ^ 1"
    by (subst double_cert [where k = 46]) (simp_all add: roundEven_def Let_def floor_rat_numeral)
  have s1: "double (342 + 3329949501264457 / 2 ^ 44) = 1168309641056841 / 2 ^ 41"
    by (subst double_cert [where k = 43]) (simp_all add: roundEven_def Let_def floor_rat_numeral)
  have s2: "double (1168309641056841 / 2 ^ 41 + 825 / 2 ^ 3) = 1395083914285641 / 2 ^ 41"
    by (subst double_cert [where k = 43]) (simp_all add: roundEven_def Let_def floor_rat_numeral)
  have s3: "double (1395083914285641 / 2 ^ 41 + 201 / 2 ^ 1) = 1616085751468617 / 2 ^ 41"
    by (subst double_cert [where k = 43]) (simp_all add: roundEven_def Let_def floor_rat_numeral)
  have ov: "double (1616085751468617 / 2 ^ 41 / 100) = 8274359047519319 / 2 ^ 50"
    by (subst double_cert [where k = 50]) (simp_all add: roundEven_def Let_def floor_rat_numeral)
  show ?thesis
    by (simp only: scoreboardRow_fields scoreOf_nearTieA score.simps defaultRubric_def
        rubric.simps scoreboardTotal_default [unfolded defaultRubric_def] p1 p2 p3 p4 s1 s2 s3 ov)
qed

lemma scoreOf_nearTieB:
  "scoreOf nearTieB =
     \<lparr>acc = 2476979795053773 / 2 ^ 48, comp' = 3417910431486537 / 2 ^ 49,
      conc = 47 / 2 ^ 3, tone = 3715469692580659 / 2 ^ 49\<rparr>"
proof -
  have n: "length nearTieB mod 30 = 23" "length nearTieB mod 20 = 3"
    "length (splitWs [] nearTieB) mod 40 = 1" "length (splitWs [] nearTieB) mod 20 = 1"
    by (simp_all add: nearTieB_def str_def isWhiteSpace_def)
  have acc1: "double (23 / 10) = 2589569785738035 / 2 ^ 50"
    by (subst double_cert [where k = 51]) (simp_all add: roundEven_def Let_def floor_rat_numeral)
  have acc2: "double (65 / 10 + 2589569785738035 / 2 ^ 50) = 2476979795053773 / 2 ^ 48"
    by (subst double_cert [where k = 49]) (simp_all add: roundEven_def Let_def floor_rat_numeral)
  have comp1: "double (1 / 14) = 2573485501354569 / 2 ^ 55"
    by (subst double_cert [where k = 56]) (simp_all add: roundEven_def Let_def floor_rat_numeral)
  have comp2: "double (6 + 2573485501354569 / 2 ^ 55) = 3417910431486537 / 2 ^ 49"
    by (subst double_cert [where k = 50]) (simp_all add: roundEven_def Let_def floor_rat_numeral)
  have conc1: "double (3 / 8) = 3 / 2 ^ 3"
    by (subst double_cert [where k = 54]) (simp_all add: roundEven_def Let_def floor_rat_numeral)
  have conc2: "double (55 / 10 + 3 / 2 ^ 3) = 47 / 2 ^ 3"
    by (subst double_cert [where k = 50]) (simp_all add: roundEven_def Let_def floor_rat_numeral)
  have tone1: "double (1 / 10) = 3602879701896397 / 2 ^ 55"
    by (subst double_cert [where k = 56]) (simp_all add: roundEven_def Let_def floor_rat_numeral)
  have tone2: "double (65 / 10 + 3602879701896397 / 2 ^ 55) = 3715469692580659 / 2 ^ 49"
    by (subst double_cert [where k = 50]) (simp_all add: roundEven_def Let_def floor_rat_numeral)
  have f: "acc (scoreOf nearTieB) = 2476979795053773 / 2 ^ 48" "comp' (scoreOf nearTieB) = 3417910431486537 / 2 ^ 49"
    "conc (scoreOf nearTieB) = 47 / 2 ^ 3" "tone (scoreOf nearTieB) = 3715469692580659 / 2 ^ 49"
    by (simp_all only: acc_scoreOf comp_scoreOf conc_scoreOf tone_scoreOf n of_nat_numeral
        of_nat_1 acc1 acc2 comp1 comp2 conc1 conc2 tone1 tone2)
  show ?thesis by (rule score.equality) (simp_all add: f)
qed

lemma overall_nearTieB:
  "overall (scoreboardRow defaultRubric (r, scoreOf nearTieB)) = 1034294880939915 / 2 ^ 47"
proof -
  have p1: "double (2476979795053773 / 2 ^ 48 * 45) = 6966505673588737 / 2 ^ 44"
    by (subst double_cert [where k = 44]) (simp_all add: roundEven_def Let_def floor_rat_numeral)
  have p2: "double (3417910431486537 / 2 ^ 49 * 25) = 2670242524598857 / 2 ^ 44"
    by (subst double_cert [where k = 45]) (simp_all add: roundEven_def Let_def floor_rat_numeral)
  have p3: "double (47 / 2 ^ 3 * 15) = 705 / 2 ^ 3"
    by (subst double_cert [where k = 46]) (simp_all add: roundEven_def Let_def floor_rat_numeral)
  have p4: "double (3715469692580659 / 2 ^ 49 * 15) = 99"
    by (subst double_cert [where k = 46]) (simp_all add: roundEven_def Let_def floor_rat_numeral)
  have s1: "double (6966505673588737 / 2 ^ 44 + 2670242524598857 / 2 ^ 44) = 4818374099093797 / 2 ^ 43"
    by (subst double_cert [where k = 43]) (simp_all add: roundEven_def Let_def floor_rat_numeral)
  have s2: "double (4818374099093797 / 2 ^ 43 + 705 / 2 ^ 3) = 5593529796675877 / 2 ^ 43"
    by (subst double_cert [where k = 43]) (simp_all add: roundEven_def Let_def floor_rat_numeral)
  have s3: "double (5593529796675877 / 2 ^ 43 + 99) = 6464343005874469 / 2 ^ 43"
    by (subst double_cert [where k = 43]) (simp_all add: roundEven_def Let_def floor_rat_numeral)
  have ov: "double (6464343005874469 / 2 ^ 43 / 100) = 1034294880939915 / 2 ^ 47"
    by (subst double_cert [where k = 50]) (simp_all add: roundEven_def Let_def floor_rat_numeral)
  show ?thesis
    by (simp only: scoreboardRow_fields scoreOf_nearTieB score.simps defaultRubric_def
        rubric.simps scoreboardTotal_default [unfolded defaultRubric_def] p1 p2 p3 p4 s1 s2 s3 ov)
qed

lemma rounding_decides_order:
  "map fst (scores (recordScore (str ''B'') nearTieB (recordScore (str ''A'') nearTieA initial)))
     = [str ''A'', str ''B''] \<and>
   map (\<lambda>rw. (role rw, overall rw))
     (scoreboardRows defaultRubric
        (scores (recordScore (str ''B'') nearTieB (recordScore (str ''A'') nearTieA initial))))
     = [(str ''B'', 1034294880939915 / 2 ^ 47), (str ''A'', 8274359047519319 / 2 ^ 50)]"
proof -
  have s: "scores (recordScore (str ''B'') nearTieB (recordScore (str ''A'') nearTieA initial)) =
      [(str ''A'', scoreOf nearTieA), (str ''B'', scoreOf nearTieB)]"
    by (simp add: recordScore_def initial_def str_def)
  have e: "objectEntries [(str ''A'', scoreOf nearTieA), (str ''B'', scoreOf nearTieB)] =
      [(str ''A'', scoreOf nearTieA), (str ''B'', scoreOf nearTieB)]"
    by (rule objectEntries_listed) (simp add: listed_A_B)
  have "scoreboardRows defaultRubric [(str ''A'', scoreOf nearTieA), (str ''B'', scoreOf nearTieB)] =
      [scoreboardRow defaultRubric (str ''B'', scoreOf nearTieB),
       scoreboardRow defaultRubric (str ''A'', scoreOf nearTieA)]"
    by (simp add: scoreboardRows_def e overall_nearTieA overall_nearTieB)
  then show ?thesis
    by (simp add: s overall_nearTieA overall_nearTieB scoreboardRow_fields(1))
qed

subsection \<open>Lower bound of the overall score\<close>
















subsection \<open>Colour assignment\<close>



























end
